theory Spec2Isabelle
  imports Main
begin

section \<open>Shared notions: object identity, errors, promises\<close>

text \<open>
  JavaScript compares objects and functions with \<^verbatim>\<open>===\<close> by identity. An object is
  therefore known by its address (\<open>ref\<close>), and an entity class (a constructor function) by
  its identity (\<open>class_id\<close>). Two different addresses may hold objects with equal fields.
\<close>

type_synonym ref = nat
type_synonym class_id = nat

text \<open>
  The four error classes the source throws. The decorator errors are constructed from the
  decorated object and the property name; the object is represented by the identity of its
  constructor. The lookup errors are constructed from the entity class asked for.
\<close>

datatype error =
    ColumnTypeUndefinedError class_id string
  | PrimaryColumnCannotBeNullableError class_id string
  | RepositoryNotFoundError class_id
  | MetadataNotFoundError class_id

text \<open>
  The state of a \<^verbatim>\<open>Promise\<close> once the event loop has run as far as it can: fulfilled with
  a value, rejected with a reason, or still pending because nothing ever settles it.
\<close>

datatype 'a promise = Fulfilled 'a | Rejected string | Pending

section \<open>The primary-column decorator\<close>

text \<open>
  Modelled from the spec: \<^verbatim>\<open>ColumnOptions\<close> is imported by the decorator but its declaration
  is not part of the sources. The spec lists the per-column options as
  \<^verbatim>\<open>{type, nullable, autoIncrement, length, default, unique}\<close>; the decorator reads
  \<^verbatim>\<open>type\<close> and \<^verbatim>\<open>nullable\<close> and writes \<^verbatim>\<open>type\<close>. Every option may be absent
  (\<^verbatim>\<open>undefined\<close>), which is \<open>None\<close>. The fields \<^verbatim>\<open>length\<close> and \<^verbatim>\<open>default\<close> carry a
  suffix, since HOL has constants of these names.
\<close>

record ColumnOptions =
  type :: "string option"
  nullable :: "bool option"
  autoIncrement :: "bool option"
  length_opt :: "nat option"
  default_opt :: "string option"
  unique :: "bool option"

text \<open>The object literal \<^verbatim>\<open>{}\<close> cast to \<^verbatim>\<open>ColumnOptions\<close>: every option is absent.\<close>

definition empty_options :: ColumnOptions where
  "empty_options =
     \<lparr>type = None, nullable = None, autoIncrement = None,
      length_opt = None, default_opt = None, unique = None\<rparr>"

text \<open>
  The first argument of \<^verbatim>\<open>PrimaryColumn\<close> has the type
  \<^verbatim>\<open>ColumnType|ColumnOptions\<close> and is optional: it is a string, an options object, or
  \<^verbatim>\<open>undefined\<close>.
\<close>

datatype type_or_options =
    Type_arg string
  | Options_arg ColumnOptions
  | Undefined_arg

text \<open>
  The object a property decorator receives is the prototype of the decorated class. The
  decorator reads its \<^verbatim>\<open>constructor\<close> and, through
  \<^verbatim>\<open>Reflect.getMetadata("design:type", object, propertyName)\<close>, the declared type of each
  property, a value of some type \<open>'d\<close>.
\<close>

record 'd Object =
  constructor :: class_id
  design_type :: "string \<Rightarrow> 'd"

text \<open>
  The argument of \<^verbatim>\<open>new ColumnMetadata({...})\<close>: the five fields the decorator passes.
\<close>

record ColumnMetadata =
  cm_target :: class_id
  propertyName :: string
  propertyType :: string
  isPrimaryKey :: bool
  cm_options :: ColumnOptions

text \<open>
  Modelled from the spec: \<^verbatim>\<open>defaultMetadataStorage\<close> and its \<^verbatim>\<open>addColumnMetadata\<close> are
  imported by the decorator but are not part of the sources. By the spec,
  \<^verbatim>\<open>addColumnMetadata(entry)\<close> appends the entry, with no uniqueness check and no
  validation, and has no other effect.
\<close>

record MetadataStorage =
  columnMetadatas :: "ColumnMetadata list"

definition addColumnMetadata :: "ColumnMetadata \<Rightarrow> MetadataStorage \<Rightarrow> MetadataStorage" where
  "addColumnMetadata entry storage =
     storage\<lparr>columnMetadatas := columnMetadatas storage @ [entry]\<rparr>"

text \<open>
  JavaScript's truthiness of a value that is a string or \<^verbatim>\<open>undefined\<close>, as tested by
  \<^verbatim>\<open>!type\<close> and \<^verbatim>\<open>!columnOptions.type\<close>: \<^verbatim>\<open>undefined\<close> and the empty string are falsy,
  every other string is truthy.
\<close>

definition truthy :: "string option \<Rightarrow> bool" where
  "truthy t = (case t of None \<Rightarrow> False | Some s \<Rightarrow> s \<noteq> [])"

text \<open>
  The head of \<^verbatim>\<open>PrimaryColumn\<close>, before the decorator function is returned: a string as
  first argument is the type and leaves \<^verbatim>\<open>options\<close> as passed; anything else replaces
  \<^verbatim>\<open>options\<close> by the first argument, also when the first argument is \<^verbatim>\<open>undefined\<close>.
  The result is the pair of the local \<^verbatim>\<open>type\<close> and the parameter \<^verbatim>\<open>options\<close>.
\<close>

definition resolve_arguments ::
  "type_or_options \<Rightarrow> ColumnOptions option \<Rightarrow> string option \<times> ColumnOptions option" where
  "resolve_arguments typeOrOptions options =
     (case typeOrOptions of
        Type_arg s \<Rightarrow> (Some s, options)
      | Options_arg opts \<Rightarrow> (None, Some opts)
      | Undefined_arg \<Rightarrow> (None, None))"

text \<open>
  The statements of the returned decorator function up to the two checks: the type is
  guessed when none was given, absent options become \<^verbatim>\<open>{}\<close>, and the options' type is
  set when they have none. The result is the final \<^verbatim>\<open>columnOptions\<close>.

  \<^verbatim>\<open>ColumnTypes.determineTypeFromFunction\<close> is not part of the sources and is a parameter:
  it maps the declared type of the property to a column type, or to \<^verbatim>\<open>undefined\<close>
  (\<open>None\<close>) when it cannot determine one.
\<close>

definition resolve_options ::
  "('d \<Rightarrow> string option) \<Rightarrow> string option \<Rightarrow> ColumnOptions option \<Rightarrow> 'd \<Rightarrow> ColumnOptions" where
  "resolve_options determineTypeFromFunction type0 options designType =
     (let type1 = (if \<not> truthy type0 then determineTypeFromFunction designType else type0);
          columnOptions = (case options of Some opts \<Rightarrow> opts | None \<Rightarrow> empty_options)
      in if \<not> truthy (type columnOptions) then columnOptions\<lparr>type := type1\<rparr>
         else columnOptions)"

text \<open>
  \<^verbatim>\<open>PrimaryColumn(typeOrOptions, options)(object, propertyName)\<close>, run against a metadata
  storage. The result is what the call did (\<open>Inl\<close> the error thrown, \<open>Inr ()\<close> a normal
  return) and the storage afterwards. \<^verbatim>\<open>ColumnTypes.typeToString\<close> is not part of the
  sources and is a parameter. The decorator function closes over \<^verbatim>\<open>type\<close> and
  \<^verbatim>\<open>options\<close>; the model is its first application, which is the only one a
  \<^verbatim>\<open>@PrimaryColumn(...)\<close> annotation makes. The assignment \<^verbatim>\<open>columnOptions.type = type\<close>
  updates the caller's options object; the model keeps the updated options, which are the
  ones stored in the column metadata.
\<close>

definition PrimaryColumn ::
  "('d \<Rightarrow> string) \<Rightarrow> ('d \<Rightarrow> string option) \<Rightarrow> type_or_options \<Rightarrow> ColumnOptions option \<Rightarrow>
   'd Object \<Rightarrow> string \<Rightarrow> MetadataStorage \<Rightarrow> (error + unit) \<times> MetadataStorage" where
  "PrimaryColumn typeToString determineTypeFromFunction typeOrOptions options object name storage =
     (let (type0, options1) = resolve_arguments typeOrOptions options;
          reflectedType = typeToString (design_type object name);
          columnOptions =
            resolve_options determineTypeFromFunction type0 options1 (design_type object name)
      in if \<not> truthy (type columnOptions) then
           (Inl (ColumnTypeUndefinedError (constructor object) name), storage)
         else if nullable columnOptions = Some True then
           (Inl (PrimaryColumnCannotBeNullableError (constructor object) name), storage)
         else
           (Inr (),
            addColumnMetadata
              \<lparr>cm_target = constructor object, propertyName = name,
               propertyType = reflectedType, isPrimaryKey = True,
               cm_options = columnOptions\<rparr>
              storage))"

subsection \<open>A sample declaration\<close>

text \<open>
  The class \<^verbatim>\<open>PostCategory\<close> of the sources: its prototype, with the declared types of
  the properties \<^verbatim>\<open>id\<close> (a number) and \<^verbatim>\<open>name\<close> (a string); a declared type is known
  by the name of its constructor, and a property without one has none. The two
  \<^verbatim>\<open>ColumnTypes\<close> functions are sample values of the parameters.
\<close>

definition sample_typeToString :: "string option \<Rightarrow> string" where
  "sample_typeToString d = (case d of None \<Rightarrow> ''undefined'' | Some n \<Rightarrow> n)"

definition sample_determineType :: "string option \<Rightarrow> string option" where
  "sample_determineType d =
     (if d = Some ''Number'' then Some ''number''
      else if d = Some ''String'' then Some ''string''
      else None)"

definition PostCategory_prototype :: "string option Object" where
  "PostCategory_prototype =
     \<lparr>constructor = 7,
      design_type = (\<lambda>p. if p = ''id'' then Some ''Number''
                         else if p = ''name'' then Some ''String'' else None)\<rparr>"

definition empty_storage :: MetadataStorage where
  "empty_storage = \<lparr>columnMetadatas = []\<rparr>"

definition nullable_options :: ColumnOptions where
  "nullable_options = empty_options\<lparr>nullable := Some True\<rparr>"


section \<open>The connection\<close>

text \<open>
  Modelled from the spec: the class \<^verbatim>\<open>EntityMetadata\<close> is imported by the connection but is
  not part of the sources. By the spec it has an owning class identity and a table name;
  the connection reads only \<^verbatim>\<open>target\<close>.
\<close>

record EntityMetadata =
  target :: class_id
  tableName :: string

text \<open>
  The part of the JavaScript heap the connection works on: the \<^verbatim>\<open>EntityMetadata\<close> object
  at each address, which the connection only reads, and the next unused address, which
  every \<^verbatim>\<open>new\<close> takes and advances.
\<close>

record heap =
  entityMetadata_at :: "ref \<Rightarrow> EntityMetadata"
  next_ref :: ref

text \<open>
  Modelled from the spec: the classes \<^verbatim>\<open>Repository\<close> and \<^verbatim>\<open>EntityManager\<close> are not
  part of the sources; only their constructor calls \<^verbatim>\<open>new Repository<any>(this, metadata)\<close>
  and \<^verbatim>\<open>new EntityManager(this)\<close> are. By the spec both are facades without derivation
  logic: the new object lives at a fresh address and keeps the constructor's arguments.
\<close>

record Repository =
  repo_ref :: ref
  repo_connection :: ref
  repo_metadata :: ref

record EntityManager =
  em_ref :: ref
  em_connection :: ref

definition new_Repository :: "ref \<Rightarrow> ref \<Rightarrow> heap \<Rightarrow> Repository \<times> heap" where
  "new_Repository connection metadata h =
     (\<lparr>repo_ref = next_ref h, repo_connection = connection, repo_metadata = metadata\<rparr>,
      h\<lparr>next_ref := Suc (next_ref h)\<rparr>)"

definition new_EntityManager :: "ref \<Rightarrow> heap \<Rightarrow> EntityManager \<times> heap" where
  "new_EntityManager connection h =
     (\<lparr>em_ref = next_ref h, em_connection = connection\<rparr>,
      h\<lparr>next_ref := Suc (next_ref h)\<rparr>)"

text \<open>The type \<^verbatim>\<open>RepositoryAndMetadata\<close>; the metadata is held by reference.\<close>

record RepositoryAndMetadata =
  repository :: Repository
  metadata :: ref

text \<open>
  Modelled from the spec: the interface \<^verbatim>\<open>Driver\<close> and the type \<^verbatim>\<open>ConnectionOptions\<close>
  are not part of the sources. The driver is an opaque capability whose \<^verbatim>\<open>connect()\<close> and
  \<^verbatim>\<open>disconnect()\<close> succeed or fail asynchronously; the model records what their promises
  come to, and the back reference \<^verbatim>\<open>connection\<close> that the constructor of the connection
  sets. The option \<^verbatim>\<open>autoSchemaCreate\<close> is a boolean that may be absent.
\<close>

record Driver =
  driver_connection :: "ref option"
  driver_connect :: "unit promise"
  driver_disconnect :: "unit promise"

record ConnectionOptions =
  autoSchemaCreate :: "bool option"

text \<open>
  The fields of the class \<^verbatim>\<open>Connection\<close>. A private field \<^verbatim>\<open>_x\<close> is written \<open>p_x\<close>
  (an Isabelle name cannot start with an underscore), which also keeps it apart from the
  getter \<^verbatim>\<open>x\<close>. The field \<open>this\<close> is the address of the connection object itself.
  Entity metadatas, entity listener metadatas and subscribers are objects and are held by
  reference.
\<close>

record Connection =
  this :: ref
  p_name :: string
  p_driver :: Driver
  p_entityMetadatas :: "ref list"
  p_entityListenerMetadatas :: "ref list"
  p_subscribers :: "ref list"
  repositoryAndMetadatas :: "RepositoryAndMetadata list"
  p_options :: ConnectionOptions
  entityManager :: EntityManager

text \<open>
  \<^verbatim>\<open>new Connection(name, driver, options)\<close>: the object is allocated, the field
  initialisers and the constructor body run, and the entity manager is allocated.
\<close>

definition new_Connection ::
  "string \<Rightarrow> Driver \<Rightarrow> ConnectionOptions \<Rightarrow> heap \<Rightarrow> Connection \<times> heap" where
  "new_Connection name driver options h =
     (let self = next_ref h;
          h1 = h\<lparr>next_ref := Suc (next_ref h)\<rparr>;
          (manager, h2) = new_EntityManager self h1
      in (\<lparr>this = self, p_name = name,
           p_driver = driver\<lparr>driver_connection := Some self\<rparr>,
           p_entityMetadatas = [], p_entityListenerMetadatas = [], p_subscribers = [],
           repositoryAndMetadatas = [], p_options = options, entityManager = manager\<rparr>,
          h2))"

subsection \<open>Getters\<close>

definition name :: "Connection \<Rightarrow> string" where
  "name c = p_name c"

definition driver :: "Connection \<Rightarrow> Driver" where
  "driver c = p_driver c"

definition subscribers :: "Connection \<Rightarrow> ref list" where
  "subscribers c = p_subscribers c"

definition entityMetadatas :: "Connection \<Rightarrow> ref list" where
  "entityMetadatas c = p_entityMetadatas c"

definition entityListeners :: "Connection \<Rightarrow> ref list" where
  "entityListeners c = p_entityListenerMetadatas c"

definition repositories :: "Connection \<Rightarrow> Repository list" where
  "repositories c = map (\<lambda>repoAndMeta. repository repoAndMeta) (repositoryAndMetadatas c)"

definition options :: "Connection \<Rightarrow> ConnectionOptions" where
  "options c = p_options c"

definition getEntityManager :: "Connection \<Rightarrow> EntityManager" where
  "getEntityManager c = entityManager c"

subsection \<open>Connecting and closing\<close>

text \<open>
  The calls a connection makes on its collaborators. \<^verbatim>\<open>connect()\<close> constructs the schema
  creator before anything else; \<^verbatim>\<open>SchemaCreator\<close> is not part of the sources, and what
  \<^verbatim>\<open>schemaCreator.create()\<close> comes to is a parameter. The result of \<^verbatim>\<open>connect()\<close> is the
  list of calls made, in order, and what the returned promise comes to:
  \<^verbatim>\<open>p.then(f)\<close> runs \<open>f\<close> only when \<open>p\<close> is fulfilled and then follows the promise
  \<open>f\<close> returns (or is fulfilled with the value it returns); it is rejected as \<open>p\<close> is,
  and stays pending while \<open>p\<close> does.
\<close>

datatype call = Driver_connect | SchemaCreator_create | Driver_disconnect

definition connect :: "Connection \<Rightarrow> unit promise \<Rightarrow> call list \<times> unit promise" where
  "connect c schemaCreator_create =
     (case driver_connect (p_driver c) of
        Fulfilled _ \<Rightarrow>
          if autoSchemaCreate (p_options c) = Some True
          then ([Driver_connect, SchemaCreator_create], schemaCreator_create)
          else ([Driver_connect], Fulfilled ())
      | Rejected reason \<Rightarrow> ([Driver_connect], Rejected reason)
      | Pending \<Rightarrow> ([Driver_connect], Pending))"

definition close :: "Connection \<Rightarrow> call list \<times> unit promise" where
  "close c = ([Driver_disconnect], driver_disconnect (p_driver c))"

subsection \<open>Lookups\<close>

text \<open>
  \<^verbatim>\<open>Array.prototype.find\<close> is \<^const>\<open>find\<close>: the first element that satisfies the test, or
  \<^verbatim>\<open>undefined\<close>. The elements are objects, so \<^verbatim>\<open>!metadata\<close> holds exactly when nothing
  was found. \<^verbatim>\<open>metadata.target === entityClass\<close> reads the object on the heap;
  \<^verbatim>\<open>repoMeta.metadata === metadata\<close> compares two references.
\<close>

definition getEntityMetadata :: "heap \<Rightarrow> Connection \<Rightarrow> class_id \<Rightarrow> error + ref" where
  "getEntityMetadata h c entityClass =
     (case find (\<lambda>m. target (entityMetadata_at h m) = entityClass) (entityMetadatas c) of
        None \<Rightarrow> Inl (MetadataNotFoundError entityClass)
      | Some found \<Rightarrow> Inr found)"

definition getRepository :: "heap \<Rightarrow> Connection \<Rightarrow> class_id \<Rightarrow> error + Repository" where
  "getRepository h c entityClass =
     (case getEntityMetadata h c entityClass of
        Inl e \<Rightarrow> Inl e
      | Inr found \<Rightarrow>
          (case find (\<lambda>repoMeta. metadata repoMeta = found) (repositoryAndMetadatas c) of
             None \<Rightarrow> Inl (RepositoryNotFoundError entityClass)
           | Some repoMeta \<Rightarrow> Inr (repository repoMeta)))"

subsection \<open>Registration\<close>

definition createRepoMeta :: "Connection \<Rightarrow> ref \<Rightarrow> heap \<Rightarrow> RepositoryAndMetadata \<times> heap" where
  "createRepoMeta c m h =
     (let (repo, h') = new_Repository (this c) m h
      in (\<lparr>repository = repo, metadata = m\<rparr>, h'))"

text \<open>
  \<^verbatim>\<open>metadatas.map(metadata => this.createRepoMeta(metadata))\<close>: the callback runs on the
  elements from left to right, each call allocating one repository.
\<close>

fun map_createRepoMeta ::
  "Connection \<Rightarrow> ref list \<Rightarrow> heap \<Rightarrow> RepositoryAndMetadata list \<times> heap" where
  "map_createRepoMeta c [] h = ([], h)"
| "map_createRepoMeta c (m # ms) h =
     (let (repoMeta, h1) = createRepoMeta c m h;
          (repoMetas, h2) = map_createRepoMeta c ms h1
      in (repoMeta # repoMetas, h2))"

text \<open>
  The three registering methods return \<^verbatim>\<open>this\<close>: the connection after the call.
  \<^verbatim>\<open>concat\<close> on arrays is \<open>@\<close>.
\<close>

definition addEntityMetadatas :: "ref list \<Rightarrow> Connection \<times> heap \<Rightarrow> Connection \<times> heap" where
  "addEntityMetadatas metadatas s =
     (let (c, h) = s;
          c1 = c\<lparr>p_entityMetadatas := p_entityMetadatas c @ metadatas\<rparr>;
          (repoMetas, h') = map_createRepoMeta c1 metadatas h
      in (c1\<lparr>repositoryAndMetadatas := repositoryAndMetadatas c1 @ repoMetas\<rparr>, h'))"

definition addEntityListenerMetadatas :: "ref list \<Rightarrow> Connection \<Rightarrow> Connection" where
  "addEntityListenerMetadatas metadatas c =
     c\<lparr>p_entityListenerMetadatas := p_entityListenerMetadatas c @ metadatas\<rparr>"

definition addSubscribers :: "ref list \<Rightarrow> Connection \<Rightarrow> Connection" where
  "addSubscribers subs c = c\<lparr>p_subscribers := p_subscribers c @ subs\<rparr>"

subsection \<open>The states a connection can be in\<close>

text \<open>
  A connection together with the heap it lives on. The fields of a connection are private,
  so after the constructor only its own methods change them. The getters,
  \<^verbatim>\<open>getEntityManager\<close>, \<^verbatim>\<open>getEntityMetadata\<close>, \<^verbatim>\<open>getRepository\<close>, \<^verbatim>\<open>connect\<close> and
  \<^verbatim>\<open>close\<close> assign no field and so leave the state as it is; the three registering
  methods are the steps. Code outside the connection may allocate objects and change the
  entity metadata objects at any time, which is the last rule.
\<close>

inductive reachable :: "Connection \<times> heap \<Rightarrow> bool" where
  created: "reachable (new_Connection nm drv opts h)"
| registered: "reachable s \<Longrightarrow> reachable (addEntityMetadatas metadatas s)"
| listening: "reachable (c, h) \<Longrightarrow> reachable (addEntityListenerMetadatas metadatas c, h)"
| subscribed: "reachable (c, h) \<Longrightarrow> reachable (addSubscribers subs c, h)"
| heap_changed: "reachable (c, h) \<Longrightarrow> next_ref h \<le> next_ref h' \<Longrightarrow> reachable (c, h')"

text \<open>
  The pairing invariant: the list of repository and metadata pairs runs parallel to the
  list of registered metadatas, every repository was constructed by this connection for
  the metadata it is paired with, and no two repositories are the same object.
\<close>

definition paired :: "Connection \<times> heap \<Rightarrow> bool" where
  "paired s \<longleftrightarrow>
     (let (c, h) = s in
        map metadata (repositoryAndMetadatas c) = p_entityMetadatas c \<and>
        (\<forall>rm \<in> set (repositoryAndMetadatas c).
            repo_metadata (repository rm) = metadata rm \<and>
            repo_connection (repository rm) = this c \<and>
            repo_ref (repository rm) < next_ref h) \<and>
        distinct (map (\<lambda>rm. repo_ref (repository rm)) (repositoryAndMetadatas c)))"

subsection \<open>A sample connection\<close>

text \<open>
  A heap with the metadata of two entity classes, at the addresses 1 and 2, and a
  connection on which both are registered.
\<close>

definition sample_heap :: heap where
  "sample_heap =
     \<lparr>entityMetadata_at =
        (\<lambda>r. if r = 1 then \<lparr>target = 7, tableName = ''sample4_post_category''\<rparr>
             else if r = 2 then \<lparr>target = 8, tableName = ''sample4_post''\<rparr>
             else \<lparr>target = 0, tableName = []\<rparr>),
      next_ref = 3\<rparr>"

definition sample_driver :: Driver where
  "sample_driver =
     \<lparr>driver_connection = None, driver_connect = Fulfilled (),
      driver_disconnect = Fulfilled ()\<rparr>"

definition sample_created :: "Connection \<times> heap" where
  "sample_created =
     new_Connection ''default'' sample_driver \<lparr>autoSchemaCreate = Some True\<rparr> sample_heap"

definition sample_state :: "Connection \<times> heap" where
  "sample_state = addEntityMetadatas [1, 2] sample_created"

text \<open>The same connection after the metadata at address 1 was registered twice.\<close>

definition sample_twice :: "Connection \<times> heap" where
  "sample_twice = addEntityMetadatas [1] (addEntityMetadatas [1] sample_created)"

section \<open>Properties of the connection\<close>

subsection \<open>Auxiliary facts\<close>

lemma find_hit: "find P xs = Some x \<Longrightarrow> x \<in> set xs \<and> P x"
  by (induction xs) (auto split: if_splits)

lemma find_some: "x \<in> set xs \<Longrightarrow> P x \<Longrightarrow> \<exists>y. find P xs = Some y"
  by (cases "find P xs") (auto simp: find_None_iff)

lemma count_list_map_filter:
  "count_list (map f xs) y = length (filter (\<lambda>x. f x = y) xs)"
  by (induction xs) auto

lemma filter_singleton_unique:
  assumes "length (filter P xs) = 1"
  shows "\<exists>!x. x \<in> set xs \<and> P x"
proof -
  from assms obtain y where y: "filter P xs = [y]"
    by (cases "filter P xs") auto
  then have "y \<in> set (filter P xs)" by simp
  then have 1: "y \<in> set xs \<and> P y" by simp
  have 2: "z = y" if "z \<in> set xs \<and> P z" for z
  proof -
    from that have "z \<in> set (filter P xs)" by simp
    then show ?thesis by (simp add: y)
  qed
  from 1 2 show ?thesis by blast
qed

lemma upt_from_Suc: "[n ..< n + Suc k] = n # [Suc n ..< Suc n + k]"
  by (simp add: upt_conv_Cons del: upt_Suc)

lemma map_createRepoMeta_metadata:
  "map metadata (fst (map_createRepoMeta c ms h)) = ms"
  by (induction ms arbitrary: h)
     (simp_all add: createRepoMeta_def new_Repository_def split_beta Let_def)

lemma map_createRepoMeta_next_ref:
  "next_ref (snd (map_createRepoMeta c ms h)) = next_ref h + length ms"
  by (induction ms arbitrary: h)
     (simp_all add: createRepoMeta_def new_Repository_def split_beta Let_def)

lemma map_createRepoMeta_heap:
  "entityMetadata_at (snd (map_createRepoMeta c ms h)) = entityMetadata_at h"
  by (induction ms arbitrary: h)
     (simp_all add: createRepoMeta_def new_Repository_def split_beta Let_def)

lemma map_createRepoMeta_refs:
  "map (\<lambda>rm. repo_ref (repository rm)) (fst (map_createRepoMeta c ms h)) =
     [next_ref h ..< next_ref h + length ms]"
proof (induction ms arbitrary: h)
  case Nil
  show ?case by simp
next
  case (Cons m ms)
  have "map (\<lambda>rm. repo_ref (repository rm)) (fst (map_createRepoMeta c (m # ms) h)) =
          next_ref h # [Suc (next_ref h) ..< Suc (next_ref h) + length ms]"
    by (simp add: createRepoMeta_def new_Repository_def split_beta Let_def Cons.IH
             del: upt_Suc)
  also have "\<dots> = [next_ref h ..< next_ref h + length (m # ms)]"
    using upt_from_Suc [of "next_ref h" "length ms"] by simp
  finally show ?case .
qed

lemma map_createRepoMeta_fields:
  "rm \<in> set (fst (map_createRepoMeta c ms h)) \<Longrightarrow>
     repo_metadata (repository rm) = metadata rm \<and> repo_connection (repository rm) = this c"
  by (induction ms arbitrary: h)
     (auto simp: createRepoMeta_def new_Repository_def split_beta Let_def)

lemma addEntityMetadatas_fst:
  "fst (addEntityMetadatas ms s) =
     (fst s)\<lparr>p_entityMetadatas := p_entityMetadatas (fst s) @ ms,
             repositoryAndMetadatas := repositoryAndMetadatas (fst s) @
               fst (map_createRepoMeta
                      ((fst s)\<lparr>p_entityMetadatas := p_entityMetadatas (fst s) @ ms\<rparr>)
                      ms (snd s))\<rparr>"
  by (simp add: addEntityMetadatas_def split_beta Let_def)

lemma addEntityMetadatas_heap:
  "entityMetadata_at (snd (addEntityMetadatas ms s)) = entityMetadata_at (snd s)"
  by (simp add: addEntityMetadatas_def split_beta Let_def map_createRepoMeta_heap)

lemma paired_new: "paired (new_Connection nm drv opts h)"
  by (simp add: paired_def new_Connection_def new_EntityManager_def Let_def)

lemma paired_add:
  assumes "paired s"
  shows "paired (addEntityMetadatas ms s)"
proof -
  obtain c h where s: "s = (c, h)" by (cases s)
  let ?c1 = "c\<lparr>p_entityMetadatas := p_entityMetadatas c @ ms\<rparr>"
  let ?r = "map_createRepoMeta ?c1 ms h"
  have step: "addEntityMetadatas ms s =
      (?c1\<lparr>repositoryAndMetadatas := repositoryAndMetadatas c @ fst ?r\<rparr>, snd ?r)"
    by (simp add: s addEntityMetadatas_def split_beta Let_def)
  from assms s have m: "map metadata (repositoryAndMetadatas c) = p_entityMetadatas c"
    and old: "\<forall>rm \<in> set (repositoryAndMetadatas c).
            repo_metadata (repository rm) = metadata rm \<and>
            repo_connection (repository rm) = this c \<and>
            repo_ref (repository rm) < next_ref h"
    and d: "distinct (map (\<lambda>rm. repo_ref (repository rm)) (repositoryAndMetadatas c))"
    by (simp_all add: paired_def)
  have new_refs:
    "map (\<lambda>rm. repo_ref (repository rm)) (fst ?r) = [next_ref h ..< next_ref h + length ms]"
    by (rule map_createRepoMeta_refs)
  have new_lt: "\<forall>rm \<in> set (fst ?r).
      next_ref h \<le> repo_ref (repository rm) \<and> repo_ref (repository rm) < next_ref h + length ms"
  proof
    fix rm assume "rm \<in> set (fst ?r)"
    then have "repo_ref (repository rm) \<in> set (map (\<lambda>rm. repo_ref (repository rm)) (fst ?r))"
      by simp
    then show "next_ref h \<le> repo_ref (repository rm) \<and>
               repo_ref (repository rm) < next_ref h + length ms"
      by (simp only: new_refs) simp
  qed
  have new_fields: "\<forall>rm \<in> set (fst ?r).
      repo_metadata (repository rm) = metadata rm \<and> repo_connection (repository rm) = this c"
    using map_createRepoMeta_fields [of _ ?c1 ms h] by simp
  have d2: "distinct (map (\<lambda>rm. repo_ref (repository rm)) (repositoryAndMetadatas c @ fst ?r))"
    using d old new_lt by (auto simp: new_refs)
  show ?thesis
    unfolding step paired_def
    using m old new_lt new_fields d2
    by (auto simp: map_createRepoMeta_metadata map_createRepoMeta_next_ref)
qed

lemma reachable_paired: "reachable s \<Longrightarrow> paired s"
proof (induction rule: reachable.induct)
  case (created nm drv opts h)
  show ?case by (rule paired_new)
next
  case (registered s metadatas)
  then show ?case by (simp add: paired_add)
next
  case (listening c h metadatas)
  then show ?case by (simp add: paired_def addEntityListenerMetadatas_def)
next
  case (subscribed c h subs)
  then show ?case by (simp add: paired_def addSubscribers_def)
next
  case (heap_changed c h h')
  then show ?case by (fastforce simp: paired_def)
qed

lemma sample_created_reachable: "reachable sample_created"
  unfolding sample_created_def by (rule reachable.created)

lemma sample_reachable: "reachable sample_state"
  unfolding sample_state_def by (intro reachable.registered sample_created_reachable)

lemma sample_created_fst:
  "fst sample_created =
     \<lparr>this = 3, p_name = ''default'',
      p_driver = \<lparr>driver_connection = Some 3, driver_connect = Fulfilled (),
                  driver_disconnect = Fulfilled ()\<rparr>,
      p_entityMetadatas = [], p_entityListenerMetadatas = [], p_subscribers = [],
      repositoryAndMetadatas = [], p_options = \<lparr>autoSchemaCreate = Some True\<rparr>,
      entityManager = \<lparr>em_ref = 4, em_connection = 3\<rparr>\<rparr>"
  by (simp add: sample_created_def new_Connection_def new_EntityManager_def sample_heap_def
                sample_driver_def Let_def)

lemma sample_created_snd:
  "entityMetadata_at (snd sample_created) = entityMetadata_at sample_heap"
  "next_ref (snd sample_created) = 5"
  by (simp_all add: sample_created_def new_Connection_def new_EntityManager_def
                    sample_heap_def Let_def)

lemma sample_state_fst:
  "fst sample_state =
     \<lparr>this = 3, p_name = ''default'',
      p_driver = \<lparr>driver_connection = Some 3, driver_connect = Fulfilled (),
                  driver_disconnect = Fulfilled ()\<rparr>,
      p_entityMetadatas = [1, 2], p_entityListenerMetadatas = [], p_subscribers = [],
      repositoryAndMetadatas =
        [\<lparr>repository = \<lparr>repo_ref = 5, repo_connection = 3, repo_metadata = 1\<rparr>,
          metadata = 1\<rparr>,
         \<lparr>repository = \<lparr>repo_ref = 6, repo_connection = 3, repo_metadata = 2\<rparr>,
          metadata = 2\<rparr>],
      p_options = \<lparr>autoSchemaCreate = Some True\<rparr>,
      entityManager = \<lparr>em_ref = 4, em_connection = 3\<rparr>\<rparr>"
  by (simp add: sample_state_def addEntityMetadatas_fst sample_created_fst sample_created_snd
                createRepoMeta_def new_Repository_def Let_def)

lemma sample_once_state:
  "addEntityMetadatas [1] sample_created =
     (\<lparr>this = 3, p_name = ''default'',
       p_driver = \<lparr>driver_connection = Some 3, driver_connect = Fulfilled (),
                   driver_disconnect = Fulfilled ()\<rparr>,
       p_entityMetadatas = [1], p_entityListenerMetadatas = [], p_subscribers = [],
       repositoryAndMetadatas =
         [\<lparr>repository = \<lparr>repo_ref = 5, repo_connection = 3, repo_metadata = 1\<rparr>,
           metadata = 1\<rparr>],
       p_options = \<lparr>autoSchemaCreate = Some True\<rparr>,
       entityManager = \<lparr>em_ref = 4, em_connection = 3\<rparr>\<rparr>,
      (snd sample_created)\<lparr>next_ref := 6\<rparr>)"
  by (simp add: prod_eq_iff addEntityMetadatas_def split_beta sample_created_fst
                sample_created_snd createRepoMeta_def new_Repository_def Let_def)

lemma sample_twice_fst:
  "fst sample_twice =
     \<lparr>this = 3, p_name = ''default'',
      p_driver = \<lparr>driver_connection = Some 3, driver_connect = Fulfilled (),
                  driver_disconnect = Fulfilled ()\<rparr>,
      p_entityMetadatas = [1, 1], p_entityListenerMetadatas = [], p_subscribers = [],
      repositoryAndMetadatas =
        [\<lparr>repository = \<lparr>repo_ref = 5, repo_connection = 3, repo_metadata = 1\<rparr>,
          metadata = 1\<rparr>,
         \<lparr>repository = \<lparr>repo_ref = 6, repo_connection = 3, repo_metadata = 1\<rparr>,
          metadata = 1\<rparr>],
      p_options = \<lparr>autoSchemaCreate = Some True\<rparr>,
      entityManager = \<lparr>em_ref = 4, em_connection = 3\<rparr>\<rparr>"
  unfolding sample_twice_def sample_once_state
  by (simp add: addEntityMetadatas_fst createRepoMeta_def new_Repository_def Let_def)

lemma sample_twice_reachable: "reachable sample_twice"
  unfolding sample_twice_def by (intro reachable.registered sample_created_reachable)

lemma sample_state_snd:
  "entityMetadata_at (snd sample_state) = entityMetadata_at sample_heap"
  by (simp add: sample_state_def addEntityMetadatas_heap sample_created_snd)

subsection \<open>Looking up a repository\<close>

text \<open>
  Claim C1, as amended. The claim says that \<^verbatim>\<open>getRepository\<close> fails with
  \<^verbatim>\<open>RepositoryNotFoundError\<close> for a class that was never registered. The method first
  calls \<^verbatim>\<open>getEntityMetadata\<close>, which throws \<^verbatim>\<open>MetadataNotFoundError\<close> when no
  registered metadata has the class as its target, so that is the error the caller sees:
  for every class that is the target of no registered entity metadata,
  \<^verbatim>\<open>getRepository\<close> fails with \<^verbatim>\<open>MetadataNotFoundError\<close>.
\<close>

theorem getRepository_unregistered:
  assumes "\<forall>m \<in> set (entityMetadatas c). target (entityMetadata_at h m) \<noteq> entityClass"
  shows "getRepository h c entityClass = Inl (MetadataNotFoundError entityClass)"
proof -
  have "find (\<lambda>m. target (entityMetadata_at h m) = entityClass) (entityMetadatas c) = None"
    using assms by (simp add: find_None_iff)
  then show ?thesis
    by (simp add: getRepository_def getEntityMetadata_def)
qed

text \<open>
  On the sample connection the classes 7 and 8 are registered and the class 9 is not.
\<close>

theorem getRepository_unregistered_witness:
  "map (\<lambda>m. target (entityMetadata_at (snd sample_state) m))
       (entityMetadatas (fst sample_state)) = [7, 8] \<and>
   getRepository (snd sample_state) (fst sample_state) 9 = Inl (MetadataNotFoundError 9)"
proof -
  have t: "map (\<lambda>m. target (entityMetadata_at (snd sample_state) m))
               (entityMetadatas (fst sample_state)) = [7, 8]"
    by (simp add: entityMetadatas_def sample_state_fst sample_state_snd sample_heap_def)
  have h: "\<forall>m \<in> set (entityMetadatas (fst sample_state)).
      target (entityMetadata_at (snd sample_state) m) \<noteq> 9"
    by (simp add: entityMetadatas_def sample_state_fst sample_state_snd sample_heap_def)
  show ?thesis using t getRepository_unregistered [OF h] by blast
qed

text \<open>
  Claim C1 as stated fails: on a connection that was just created nothing is registered,
  and \<^verbatim>\<open>getRepository\<close> of the class 9 does not fail with
  \<^verbatim>\<open>RepositoryNotFoundError\<close>.
\<close>

theorem getRepository_unregistered_counterexample:
  "entityMetadatas (fst sample_created) = [] \<and>
   getRepository (snd sample_created) (fst sample_created) 9 = Inl (MetadataNotFoundError 9) \<and>
   getRepository (snd sample_created) (fst sample_created) 9 \<noteq> Inl (RepositoryNotFoundError 9)"
  by (simp add: getRepository_def getEntityMetadata_def entityMetadatas_def sample_created_fst)

text \<open>
  Claim C2. For every entity metadata \<open>m\<close> registered on a connection,
  \<^verbatim>\<open>getRepository\<close> of the owning class of \<open>m\<close> succeeds. The repository it returns
  belongs to a registered pair; the metadata of that pair is the one
  \<^verbatim>\<open>getEntityMetadata\<close> resolves for the class, its target is the class asked for, and
  the repository was constructed for it. The heap is the one at the time of the call.
\<close>

theorem getRepository_registered:
  assumes "reachable s" and "m \<in> set (entityMetadatas (fst s))"
  shows "\<exists>rm \<in> set (repositoryAndMetadatas (fst s)).
           getRepository (snd s) (fst s) (target (entityMetadata_at (snd s) m)) =
             Inr (repository rm) \<and>
           getEntityMetadata (snd s) (fst s) (target (entityMetadata_at (snd s) m)) =
             Inr (metadata rm) \<and>
           repo_metadata (repository rm) = metadata rm \<and>
           target (entityMetadata_at (snd s) (metadata rm)) =
             target (entityMetadata_at (snd s) m)"
proof -
  obtain c h where s: "s = (c, h)" by (cases s)
  let ?C = "target (entityMetadata_at h m)"
  from assms(1) have "paired s" by (rule reachable_paired)
  with s have al: "map metadata (repositoryAndMetadatas c) = entityMetadatas c"
    and fields: "\<forall>rm \<in> set (repositoryAndMetadatas c). repo_metadata (repository rm) = metadata rm"
    by (simp_all add: paired_def entityMetadatas_def)
  from assms(2) s obtain found where
    f: "find (\<lambda>m. target (entityMetadata_at h m) = ?C) (entityMetadatas c) = Some found"
    using find_some [of m "entityMetadatas c" "\<lambda>m. target (entityMetadata_at h m) = ?C"]
    by auto
  then have fm: "found \<in> set (entityMetadatas c)"
    and ft: "target (entityMetadata_at h found) = ?C"
    using find_hit [OF f] by simp_all
  from fm al have "found \<in> metadata ` set (repositoryAndMetadatas c)"
    by (metis set_map)
  then obtain rm0 where "rm0 \<in> set (repositoryAndMetadatas c)" "metadata rm0 = found"
    by auto
  then obtain rm where
    r: "find (\<lambda>rm. metadata rm = found) (repositoryAndMetadatas c) = Some rm"
    using find_some [of rm0 "repositoryAndMetadatas c" "\<lambda>rm. metadata rm = found"] by auto
  have rin: "rm \<in> set (repositoryAndMetadatas c)" and rmeta: "metadata rm = found"
    using find_hit [OF r] by simp_all
  have "getEntityMetadata h c ?C = Inr (metadata rm)"
    by (simp add: getEntityMetadata_def f rmeta)
  moreover have "getRepository h c ?C = Inr (repository rm)"
    by (simp add: getRepository_def getEntityMetadata_def f r)
  moreover have "repo_metadata (repository rm) = metadata rm"
    using fields rin by simp
  moreover have "target (entityMetadata_at h (metadata rm)) = ?C"
    by (simp add: rmeta ft)
  ultimately show ?thesis using rin s by auto
qed

theorem getRepository_registered_witness:
  "reachable sample_state \<and> 2 \<in> set (entityMetadatas (fst sample_state)) \<and>
   (\<exists>rm \<in> set (repositoryAndMetadatas (fst sample_state)).
      getRepository (snd sample_state) (fst sample_state)
        (target (entityMetadata_at (snd sample_state) 2)) = Inr (repository rm) \<and>
      getEntityMetadata (snd sample_state) (fst sample_state)
        (target (entityMetadata_at (snd sample_state) 2)) = Inr (metadata rm) \<and>
      repo_metadata (repository rm) = metadata rm \<and>
      target (entityMetadata_at (snd sample_state) (metadata rm)) =
        target (entityMetadata_at (snd sample_state) 2))"
proof -
  have r: "reachable sample_state" by (rule sample_reachable)
  have m: "2 \<in> set (entityMetadatas (fst sample_state))"
    by (simp add: entityMetadatas_def sample_state_fst)
  show ?thesis using r m getRepository_registered [OF r m] by blast
qed

subsection \<open>The registry invariant\<close>

text \<open>
  Claim C6, as amended. The claim says that every registered entity metadata has exactly
  one corresponding repository. Nothing in the connection rejects a metadata that is
  registered again, and every registration constructs a repository, so this holds of the
  entries of the registered list and not of the metadata objects. In every state of a
  connection, the pairs run parallel to the registered entity metadatas: each registered
  entry has its own pair, in the same position, so a metadata has as many pairs as it has
  entries in the registered list, and a metadata that was registered once has exactly one
  pair. The repository of a pair was constructed for the metadata of the pair, and the
  repositories are pairwise different objects. From any such state,
  \<^verbatim>\<open>addEntityMetadatas\<close> appends the given metadatas and appends one new pair for each of
  them, in order, while \<^verbatim>\<open>addEntityListenerMetadatas\<close> and \<^verbatim>\<open>addSubscribers\<close> change
  neither collection. No other method assigns a field.
\<close>

theorem one_repository_per_registered_metadata:
  assumes "reachable s"
  shows "map metadata (repositoryAndMetadatas (fst s)) = entityMetadatas (fst s) \<and>
         (\<forall>m. length (filter (\<lambda>rm. metadata rm = m) (repositoryAndMetadatas (fst s))) =
               count_list (entityMetadatas (fst s)) m) \<and>
         (\<forall>m. count_list (entityMetadatas (fst s)) m = 1 \<longrightarrow>
               (\<exists>!rm. rm \<in> set (repositoryAndMetadatas (fst s)) \<and> metadata rm = m)) \<and>
         (\<forall>rm \<in> set (repositoryAndMetadatas (fst s)).
            repo_metadata (repository rm) = metadata rm) \<and>
         distinct (map repo_ref (repositories (fst s))) \<and>
         (\<forall>ms. entityMetadatas (fst (addEntityMetadatas ms s)) = entityMetadatas (fst s) @ ms \<and>
               (\<exists>new. repositoryAndMetadatas (fst (addEntityMetadatas ms s)) =
                        repositoryAndMetadatas (fst s) @ new \<and>
                      map metadata new = ms)) \<and>
         (\<forall>ls. entityMetadatas (addEntityListenerMetadatas ls (fst s)) =
                 entityMetadatas (fst s) \<and>
               repositoryAndMetadatas (addEntityListenerMetadatas ls (fst s)) =
                 repositoryAndMetadatas (fst s)) \<and>
         (\<forall>subs. entityMetadatas (addSubscribers subs (fst s)) = entityMetadatas (fst s) \<and>
               repositoryAndMetadatas (addSubscribers subs (fst s)) =
                 repositoryAndMetadatas (fst s))"
proof -
  from assms have p: "paired s" by (rule reachable_paired)
  have a: "map metadata (repositoryAndMetadatas (fst s)) = entityMetadatas (fst s)"
    using p by (simp add: paired_def split_beta entityMetadatas_def)
  have b: "\<forall>m. length (filter (\<lambda>rm. metadata rm = m) (repositoryAndMetadatas (fst s))) =
               count_list (entityMetadatas (fst s)) m"
    using count_list_map_filter [of metadata "repositoryAndMetadatas (fst s)"]
    by (simp add: a)
  have u: "\<forall>m. count_list (entityMetadatas (fst s)) m = 1 \<longrightarrow>
               (\<exists>!rm. rm \<in> set (repositoryAndMetadatas (fst s)) \<and> metadata rm = m)"
    using b filter_singleton_unique
            [of "\<lambda>rm. metadata rm = m" "repositoryAndMetadatas (fst s)" for m]
    by simp
  have c: "\<forall>rm \<in> set (repositoryAndMetadatas (fst s)).
            repo_metadata (repository rm) = metadata rm"
    using p by (simp add: paired_def split_beta)
  have d: "distinct (map repo_ref (repositories (fst s)))"
    using p by (simp add: paired_def split_beta repositories_def comp_def)
  have e: "\<forall>ms. entityMetadatas (fst (addEntityMetadatas ms s)) = entityMetadatas (fst s) @ ms \<and>
               (\<exists>new. repositoryAndMetadatas (fst (addEntityMetadatas ms s)) =
                        repositoryAndMetadatas (fst s) @ new \<and>
                      map metadata new = ms)"
    by (simp add: addEntityMetadatas_fst entityMetadatas_def map_createRepoMeta_metadata)
  have f: "\<forall>ls. entityMetadatas (addEntityListenerMetadatas ls (fst s)) =
                 entityMetadatas (fst s) \<and>
               repositoryAndMetadatas (addEntityListenerMetadatas ls (fst s)) =
                 repositoryAndMetadatas (fst s)"
    by (simp add: addEntityListenerMetadatas_def entityMetadatas_def)
  have g: "\<forall>subs. entityMetadatas (addSubscribers subs (fst s)) = entityMetadatas (fst s) \<and>
               repositoryAndMetadatas (addSubscribers subs (fst s)) =
                 repositoryAndMetadatas (fst s)"
    by (simp add: addSubscribers_def entityMetadatas_def)
  from a b u c d e f g show ?thesis by (intro conjI)
qed

theorem one_repository_per_registered_metadata_witness:
  "reachable sample_state \<and>
   map metadata (repositoryAndMetadatas (fst sample_state)) = [1, 2] \<and>
   entityMetadatas (fst sample_state) = [1, 2] \<and>
   length (filter (\<lambda>rm. metadata rm = 2) (repositoryAndMetadatas (fst sample_state))) = 1 \<and>
   (\<exists>!rm. rm \<in> set (repositoryAndMetadatas (fst sample_state)) \<and> metadata rm = 2) \<and>
   distinct (map repo_ref (repositories (fst sample_state)))"
proof -
  have r: "reachable sample_state" by (rule sample_reachable)
  have e: "entityMetadatas (fst sample_state) = [1, 2]"
    by (simp add: entityMetadatas_def sample_state_fst)
  have c: "count_list (entityMetadatas (fst sample_state)) 2 = 1"
    by (simp add: e)
  show ?thesis
    using r e c one_repository_per_registered_metadata [OF r] by simp
qed

text \<open>
  Claim C6 as stated fails: after the metadata at address 1 was registered twice, it is
  paired with two repositories, the objects at the addresses 5 and 6.
\<close>

theorem one_repository_per_registered_metadata_counterexample:
  "reachable sample_twice \<and>
   entityMetadatas (fst sample_twice) = [1, 1] \<and>
   repositoryAndMetadatas (fst sample_twice) =
     [\<lparr>repository = \<lparr>repo_ref = 5, repo_connection = 3, repo_metadata = 1\<rparr>, metadata = 1\<rparr>,
      \<lparr>repository = \<lparr>repo_ref = 6, repo_connection = 3, repo_metadata = 1\<rparr>, metadata = 1\<rparr>]"
  by (simp add: sample_twice_reachable entityMetadatas_def sample_twice_fst)

subsection \<open>The order of the repositories\<close>

lemma fold_addEntityMetadatas_metadatas:
  "p_entityMetadatas (fst (fold addEntityMetadatas batches s)) =
     p_entityMetadatas (fst s) @ concat batches"
  by (induction batches arbitrary: s) (simp_all add: addEntityMetadatas_fst)

lemma fold_addEntityMetadatas_reachable:
  "reachable s \<Longrightarrow> reachable (fold addEntityMetadatas batches s)"
  by (induction batches arbitrary: s) (simp_all add: reachable.registered)

lemma map_createRepoMeta_repo_metadata:
  "map (\<lambda>rm. repo_metadata (repository rm)) (fst (map_createRepoMeta c ms h)) = ms"
  by (induction ms arbitrary: h)
     (simp_all add: createRepoMeta_def new_Repository_def split_beta Let_def)

lemma paired_repo_metadata:
  assumes "paired s"
  shows "map repo_metadata (repositories (fst s)) = entityMetadatas (fst s)"
proof -
  from assms have
    a: "map metadata (repositoryAndMetadatas (fst s)) = p_entityMetadatas (fst s)"
    and b: "\<forall>rm \<in> set (repositoryAndMetadatas (fst s)).
              repo_metadata (repository rm) = metadata rm"
    by (simp_all add: paired_def split_beta)
  have "map repo_metadata (repositories (fst s)) =
          map (\<lambda>rm. repo_metadata (repository rm)) (repositoryAndMetadatas (fst s))"
    by (simp add: repositories_def comp_def)
  also have "\<dots> = map metadata (repositoryAndMetadatas (fst s))"
    using b by (simp cong: map_cong)
  finally show ?thesis by (simp add: a entityMetadatas_def)
qed

text \<open>
  Claim C8. After any sequence of \<^verbatim>\<open>addEntityMetadatas\<close> calls on a new connection, the
  \<^verbatim>\<open>repositories\<close> getter returns one repository for each registered entity metadata, in
  the order in which the metadatas were added: the metadatas the repositories were
  constructed for are the batches laid end to end, which is also the registered list,
  and the repositories are pairwise different objects. On any connection, a further call
  keeps the repositories returned so far as a prefix, in their order, and appends one
  repository for each new metadata, in order.
\<close>

theorem repositories_in_registration_order:
  "map repo_metadata
     (repositories (fst (fold addEntityMetadatas batches (new_Connection nm drv opts h)))) =
     concat batches \<and>
   entityMetadatas (fst (fold addEntityMetadatas batches (new_Connection nm drv opts h))) =
     concat batches \<and>
   distinct (map repo_ref
     (repositories (fst (fold addEntityMetadatas batches (new_Connection nm drv opts h))))) \<and>
   (\<exists>new. repositories (fst (addEntityMetadatas ms s)) = repositories (fst s) @ new \<and>
          map repo_metadata new = ms)"
proof -
  let ?s = "fold addEntityMetadatas batches (new_Connection nm drv opts h)"
  have "reachable ?s"
    by (rule fold_addEntityMetadatas_reachable) (rule reachable.created)
  then have p: "paired ?s" by (rule reachable_paired)
  have e: "entityMetadatas (fst ?s) = concat batches"
    by (simp add: entityMetadatas_def fold_addEntityMetadatas_metadatas
                  new_Connection_def new_EntityManager_def Let_def)
  have r: "map repo_metadata (repositories (fst ?s)) = concat batches"
    using paired_repo_metadata [OF p] e by simp
  have d: "distinct (map repo_ref (repositories (fst ?s)))"
    using p by (simp add: paired_def split_beta repositories_def comp_def)
  let ?new = "map repository
     (fst (map_createRepoMeta ((fst s)\<lparr>p_entityMetadatas := p_entityMetadatas (fst s) @ ms\<rparr>)
        ms (snd s)))"
  have "repositories (fst (addEntityMetadatas ms s)) = repositories (fst s) @ ?new"
    by (simp add: repositories_def addEntityMetadatas_fst)
  moreover have "map repo_metadata ?new = ms"
    by (simp add: comp_def map_createRepoMeta_repo_metadata)
  ultimately have n: "\<exists>new. repositories (fst (addEntityMetadatas ms s)) =
      repositories (fst s) @ new \<and> map repo_metadata new = ms"
    by blast
  from r e d n show ?thesis by (intro conjI)
qed

subsection \<open>Connecting\<close>

text \<open>
  Claim C7. \<^verbatim>\<open>connect()\<close> calls the driver's \<^verbatim>\<open>connect\<close> first, and calls the schema
  creator's \<^verbatim>\<open>create\<close> after it exactly when the driver's promise was fulfilled and
  \<^verbatim>\<open>autoSchemaCreate\<close> is \<^verbatim>\<open>true\<close>. The promise it returns is fulfilled exactly when the
  driver's is and, with the option set, the schema creator's is too: with the option set
  and the driver connected it comes to what \<^verbatim>\<open>create()\<close> comes to, and with the option
  off it comes to what the driver's \<^verbatim>\<open>connect()\<close> comes to.
\<close>

theorem connect_sequence:
  "fst (connect c create) =
     (if driver_connect (p_driver c) = Fulfilled () \<and>
         autoSchemaCreate (p_options c) = Some True
      then [Driver_connect, SchemaCreator_create] else [Driver_connect]) \<and>
   (snd (connect c create) = Fulfilled () \<longleftrightarrow>
      driver_connect (p_driver c) = Fulfilled () \<and>
      (autoSchemaCreate (p_options c) = Some True \<longrightarrow> create = Fulfilled ())) \<and>
   (driver_connect (p_driver c) = Fulfilled () \<and> autoSchemaCreate (p_options c) = Some True
      \<longrightarrow> snd (connect c create) = create) \<and>
   (autoSchemaCreate (p_options c) \<noteq> Some True \<longrightarrow>
      snd (connect c create) = driver_connect (p_driver c))"
  by (cases "driver_connect (p_driver c)") (simp_all add: connect_def)


text \<open>
  On the sample connection the driver connects and the option is set: a schema creation
  that succeeds fulfils \<^verbatim>\<open>connect()\<close>, one that fails does not, and with the option
  absent the schema creator is not called.
\<close>

theorem connect_sequence_witness:
  "connect (fst sample_state) (Fulfilled ()) =
     ([Driver_connect, SchemaCreator_create], Fulfilled ()) \<and>
   snd (connect (fst sample_state) (Rejected ''no such table'')) \<noteq> Fulfilled () \<and>
   connect ((fst sample_state)\<lparr>p_options := \<lparr>autoSchemaCreate = None\<rparr>\<rparr>)
     (Rejected ''no such table'') = ([Driver_connect], Fulfilled ())"
  using connect_sequence [of "fst sample_state" "Fulfilled ()"]
        connect_sequence [of "fst sample_state" "Rejected ''no such table''"]
        connect_sequence [of "(fst sample_state)\<lparr>p_options := \<lparr>autoSchemaCreate = None\<rparr>\<rparr>"
                             "Rejected ''no such table''"]
  by (simp add: sample_state_fst prod_eq_iff)

subsection \<open>What the other registering methods leave alone\<close>

text \<open>
  Claim C10. \<^verbatim>\<open>addSubscribers\<close> appends to the list of subscribers and changes no other
  field of the connection; \<^verbatim>\<open>addEntityListenerMetadatas\<close> appends to the list of entity
  listener metadatas and changes no other field. In particular the registered entity
  metadatas, the repository and metadata pairs, the driver, the options and the other of
  the two lists stay as they are. Neither method touches the heap.
\<close>

theorem registration_frame:
  "p_subscribers (addSubscribers subs c) = p_subscribers c @ subs \<and>
   p_entityListenerMetadatas (addSubscribers subs c) = p_entityListenerMetadatas c \<and>
   p_entityMetadatas (addSubscribers subs c) = p_entityMetadatas c \<and>
   repositoryAndMetadatas (addSubscribers subs c) = repositoryAndMetadatas c \<and>
   p_driver (addSubscribers subs c) = p_driver c \<and>
   p_options (addSubscribers subs c) = p_options c \<and>
   p_name (addSubscribers subs c) = p_name c \<and>
   this (addSubscribers subs c) = this c \<and>
   entityManager (addSubscribers subs c) = entityManager c \<and>
   p_entityListenerMetadatas (addEntityListenerMetadatas ls c) =
     p_entityListenerMetadatas c @ ls \<and>
   p_subscribers (addEntityListenerMetadatas ls c) = p_subscribers c \<and>
   p_entityMetadatas (addEntityListenerMetadatas ls c) = p_entityMetadatas c \<and>
   repositoryAndMetadatas (addEntityListenerMetadatas ls c) = repositoryAndMetadatas c \<and>
   p_driver (addEntityListenerMetadatas ls c) = p_driver c \<and>
   p_options (addEntityListenerMetadatas ls c) = p_options c \<and>
   p_name (addEntityListenerMetadatas ls c) = p_name c \<and>
   this (addEntityListenerMetadatas ls c) = this c \<and>
   entityManager (addEntityListenerMetadatas ls c) = entityManager c"
  by (simp add: addSubscribers_def addEntityListenerMetadatas_def)


section \<open>Properties of the primary-column decorator\<close>

lemma sample_id_type:
  "design_type PostCategory_prototype ''id'' = Some ''Number''"
  "design_type PostCategory_prototype ''other'' = None"
  "constructor PostCategory_prototype = 7"
  by (simp_all add: PostCategory_prototype_def)

text \<open>
  The head of \<^verbatim>\<open>PrimaryColumn\<close> replaces \<^verbatim>\<open>options\<close> by the first argument whenever
  that is not a string. Options passed after an \<^verbatim>\<open>undefined\<close> first argument are
  therefore not the options the decorator works with: it works with \<^verbatim>\<open>{}\<close>.
\<close>

lemma options_after_undefined_are_replaced:
  "resolve_arguments Undefined_arg (Some opts) = (None, None)"
  by (simp add: resolve_arguments_def)

text \<open>
  Claim C3. Let \<open>columnOptions\<close> be the options the decorator has resolved when it
  reaches its checks. If their \<^verbatim>\<open>nullable\<close> flag is set and their type is resolved
  (truthy), the declaration fails with \<^verbatim>\<open>PrimaryColumnCannotBeNullableError\<close>.
\<close>

theorem primary_column_nullable_fails:
  assumes "columnOptions =
             resolve_options det (fst (resolve_arguments t opts))
               (snd (resolve_arguments t opts)) (design_type obj pname)"
    and "nullable columnOptions = Some True"
    and "truthy (type columnOptions)"
  shows "fst (PrimaryColumn tts det t opts obj pname storage) =
           Inl (PrimaryColumnCannotBeNullableError (constructor obj) pname)"
  using assms by (simp add: PrimaryColumn_def split_beta Let_def)

text \<open>
  \<^verbatim>\<open>@PrimaryColumn("int", {nullable: true})\<close> on the property \<^verbatim>\<open>id\<close>.
\<close>

theorem primary_column_nullable_fails_witness:
  "nullable (resolve_options sample_determineType
      (fst (resolve_arguments (Type_arg ''int'') (Some nullable_options)))
      (snd (resolve_arguments (Type_arg ''int'') (Some nullable_options)))
      (design_type PostCategory_prototype ''id'')) = Some True \<and>
   truthy (type (resolve_options sample_determineType
      (fst (resolve_arguments (Type_arg ''int'') (Some nullable_options)))
      (snd (resolve_arguments (Type_arg ''int'') (Some nullable_options)))
      (design_type PostCategory_prototype ''id''))) \<and>
   fst (PrimaryColumn sample_typeToString sample_determineType (Type_arg ''int'')
          (Some nullable_options) PostCategory_prototype ''id'' empty_storage) =
     Inl (PrimaryColumnCannotBeNullableError 7 ''id'')"
proof -
  let ?co = "resolve_options sample_determineType
      (fst (resolve_arguments (Type_arg ''int'') (Some nullable_options)))
      (snd (resolve_arguments (Type_arg ''int'') (Some nullable_options)))
      (design_type PostCategory_prototype ''id'')"
  have n: "nullable ?co = Some True"
    by (simp add: resolve_options_def resolve_arguments_def nullable_options_def
                  empty_options_def truthy_def Let_def)
  have t: "truthy (type ?co)"
    by (simp add: resolve_options_def resolve_arguments_def nullable_options_def
                  empty_options_def truthy_def Let_def)
  have c: "constructor PostCategory_prototype = 7"
    by (simp add: PostCategory_prototype_def)
  show ?thesis
    using n t c
      primary_column_nullable_fails [OF refl n t, of sample_typeToString empty_storage]
    by simp
qed

text \<open>
  Claim C4. If the declaration gives no type as decorator argument (the local \<^verbatim>\<open>type\<close>
  is falsy after the head), the options the decorator works with give none either, and
  \<^verbatim>\<open>determineTypeFromFunction\<close> yields none for the declared type of the property, the
  declaration fails with \<^verbatim>\<open>ColumnTypeUndefinedError\<close>. \<^verbatim>\<open>PrimaryColumn\<close> is the column
  decorator of the sources.
\<close>

theorem column_type_undefined:
  assumes "\<not> truthy (fst (resolve_arguments t opts))"
    and "case snd (resolve_arguments t opts) of None \<Rightarrow> True | Some co \<Rightarrow> \<not> truthy (type co)"
    and "\<not> truthy (det (design_type obj pname))"
  shows "fst (PrimaryColumn tts det t opts obj pname storage) =
           Inl (ColumnTypeUndefinedError (constructor obj) pname)"
  using assms
  by (simp add: PrimaryColumn_def resolve_options_def split_beta Let_def empty_options_def
                truthy_def split: option.splits)

text \<open>
  \<^verbatim>\<open>@PrimaryColumn()\<close> on a property whose declared type is unknown.
\<close>

theorem column_type_undefined_witness:
  "\<not> truthy (fst (resolve_arguments Undefined_arg None)) \<and>
   snd (resolve_arguments Undefined_arg None) = None \<and>
   \<not> truthy (sample_determineType (design_type PostCategory_prototype ''other'')) \<and>
   fst (PrimaryColumn sample_typeToString sample_determineType Undefined_arg None
          PostCategory_prototype ''other'' empty_storage) =
     Inl (ColumnTypeUndefinedError 7 ''other'')"
proof -
  have a: "\<not> truthy (fst (resolve_arguments Undefined_arg None))"
    by (simp add: resolve_arguments_def truthy_def)
  have b: "snd (resolve_arguments Undefined_arg None) = None"
    by (simp add: resolve_arguments_def)
  then have b': "case snd (resolve_arguments Undefined_arg None) of None \<Rightarrow> True
                 | Some co \<Rightarrow> \<not> truthy (type co)"
    by simp
  have c: "\<not> truthy (sample_determineType (design_type PostCategory_prototype ''other''))"
    by (simp add: sample_id_type sample_determineType_def truthy_def)
  show ?thesis
    using a b c
      column_type_undefined [where t = Undefined_arg and opts = None
        and det = sample_determineType and obj = PostCategory_prototype
        and pname = "''other''" and tts = sample_typeToString and storage = empty_storage,
        OF a b' c]
    by (simp add: sample_id_type)
qed

text \<open>
  Claim C9. If the resolved options have no resolved type, the declaration fails with
  \<^verbatim>\<open>ColumnTypeUndefinedError\<close> and not with \<^verbatim>\<open>PrimaryColumnCannotBeNullableError\<close>,
  whatever the \<^verbatim>\<open>nullable\<close> flag is, and so in particular when it is set: the check of
  the type comes first.
\<close>

theorem type_check_precedes_nullable_check:
  assumes "columnOptions =
             resolve_options det (fst (resolve_arguments t opts))
               (snd (resolve_arguments t opts)) (design_type obj pname)"
    and "\<not> truthy (type columnOptions)"
  shows "fst (PrimaryColumn tts det t opts obj pname storage) =
           Inl (ColumnTypeUndefinedError (constructor obj) pname) \<and>
         fst (PrimaryColumn tts det t opts obj pname storage) \<noteq>
           Inl (PrimaryColumnCannotBeNullableError (constructor obj) pname)"
  using assms by (simp add: PrimaryColumn_def split_beta Let_def)

text \<open>
  \<^verbatim>\<open>@PrimaryColumn({nullable: true})\<close> on a property whose declared type is unknown.
\<close>

theorem type_check_precedes_nullable_check_witness:
  "nullable (resolve_options sample_determineType
      (fst (resolve_arguments (Options_arg nullable_options) None))
      (snd (resolve_arguments (Options_arg nullable_options) None))
      (design_type PostCategory_prototype ''other'')) = Some True \<and>
   \<not> truthy (type (resolve_options sample_determineType
      (fst (resolve_arguments (Options_arg nullable_options) None))
      (snd (resolve_arguments (Options_arg nullable_options) None))
      (design_type PostCategory_prototype ''other''))) \<and>
   fst (PrimaryColumn sample_typeToString sample_determineType (Options_arg nullable_options)
          None PostCategory_prototype ''other'' empty_storage) =
     Inl (ColumnTypeUndefinedError 7 ''other'')"
proof -
  let ?co = "resolve_options sample_determineType
      (fst (resolve_arguments (Options_arg nullable_options) None))
      (snd (resolve_arguments (Options_arg nullable_options) None))
      (design_type PostCategory_prototype ''other'')"
  have n: "nullable ?co = Some True"
    by (simp add: resolve_options_def resolve_arguments_def nullable_options_def
                  empty_options_def truthy_def Let_def)
  have t: "\<not> truthy (type ?co)"
    by (simp add: resolve_options_def resolve_arguments_def nullable_options_def
                  empty_options_def truthy_def Let_def sample_id_type sample_determineType_def)
  show ?thesis
    using n t
      type_check_precedes_nullable_check [OF refl t, of sample_typeToString empty_storage]
    by (simp add: sample_id_type)
qed

text \<open>
  Failure leaves the storage alone. Whenever the decorator fails, the error is one of
  \<^verbatim>\<open>ColumnTypeUndefinedError\<close> and \<^verbatim>\<open>PrimaryColumnCannotBeNullableError\<close> and the
  metadata storage is as it was before the call: \<^verbatim>\<open>addColumnMetadata\<close> was not called.
  A declaration whose resolved options have the \<^verbatim>\<open>nullable\<close> flag set always fails, so
  it leaves the storage unchanged. Only a normal return changes the storage, by the one
  column metadata that was added.
\<close>

theorem storage_unchanged_on_error:
  assumes "r = PrimaryColumn tts det t opts obj pname storage"
    and "columnOptions =
             resolve_options det (fst (resolve_arguments t opts))
               (snd (resolve_arguments t opts)) (design_type obj pname)"
  shows "(\<forall>e. fst r = Inl e \<longrightarrow>
            snd r = storage \<and>
            (e = ColumnTypeUndefinedError (constructor obj) pname \<or>
             e = PrimaryColumnCannotBeNullableError (constructor obj) pname)) \<and>
         (nullable columnOptions = Some True \<longrightarrow> (\<exists>e. fst r = Inl e) \<and> snd r = storage) \<and>
         (fst r = Inr () \<longrightarrow>
            columnMetadatas (snd r) =
              columnMetadatas storage @
                [\<lparr>cm_target = constructor obj, propertyName = pname,
                  propertyType = tts (design_type obj pname), isPrimaryKey = True,
                  cm_options = columnOptions\<rparr>])"
  using assms
  by (simp add: PrimaryColumn_def split_beta Let_def addColumnMetadata_def)

text \<open>
  \<^verbatim>\<open>@PrimaryColumn("int", {nullable: true})\<close> on \<^verbatim>\<open>id\<close> fails and leaves the empty
  storage empty; \<^verbatim>\<open>@PrimaryColumn("int", {autoIncrement: true})\<close>, the declaration of the
  sources, adds its column metadata.
\<close>

theorem storage_unchanged_on_error_witness:
  "PrimaryColumn sample_typeToString sample_determineType (Type_arg ''int'')
     (Some nullable_options) PostCategory_prototype ''id'' empty_storage =
     (Inl (PrimaryColumnCannotBeNullableError 7 ''id''), empty_storage) \<and>
   columnMetadatas (snd (PrimaryColumn sample_typeToString sample_determineType
     (Type_arg ''int'') (Some (empty_options\<lparr>autoIncrement := Some True\<rparr>))
     PostCategory_prototype ''id'' empty_storage)) =
     [\<lparr>cm_target = 7, propertyName = ''id'', propertyType = ''Number'', isPrimaryKey = True,
       cm_options = empty_options\<lparr>type := Some ''int'', autoIncrement := Some True\<rparr>\<rparr>]"
proof -
  let ?r = "PrimaryColumn sample_typeToString sample_determineType (Type_arg ''int'')
     (Some nullable_options) PostCategory_prototype ''id'' empty_storage"
  let ?q = "PrimaryColumn sample_typeToString sample_determineType
     (Type_arg ''int'') (Some (empty_options\<lparr>autoIncrement := Some True\<rparr>))
     PostCategory_prototype ''id'' empty_storage"
  have e: "fst ?r = Inl (PrimaryColumnCannotBeNullableError 7 ''id'')"
    by (simp add: PrimaryColumn_def resolve_options_def resolve_arguments_def
                  nullable_options_def empty_options_def truthy_def Let_def sample_id_type)
  have "snd ?r = empty_storage"
    using e storage_unchanged_on_error [OF refl refl, of sample_typeToString
      sample_determineType "Type_arg ''int''" "Some nullable_options" PostCategory_prototype
      "''id''" empty_storage]
    by simp
  with e have 1: "?r = (Inl (PrimaryColumnCannotBeNullableError 7 ''id''), empty_storage)"
    by (simp add: prod_eq_iff)
  have ok: "fst ?q = Inr ()"
    by (simp add: PrimaryColumn_def resolve_options_def resolve_arguments_def
                  empty_options_def truthy_def Let_def sample_id_type)
  have co: "\<And>d. resolve_options sample_determineType
              (fst (resolve_arguments (Type_arg ''int'')
                      (Some (empty_options\<lparr>autoIncrement := Some True\<rparr>))))
              (snd (resolve_arguments (Type_arg ''int'')
                      (Some (empty_options\<lparr>autoIncrement := Some True\<rparr>))))
              d =
            empty_options\<lparr>type := Some ''int'', autoIncrement := Some True\<rparr>"
    by (simp add: resolve_options_def resolve_arguments_def empty_options_def truthy_def Let_def)
  have 2: "columnMetadatas (snd ?q) =
     [\<lparr>cm_target = 7, propertyName = ''id'', propertyType = ''Number'', isPrimaryKey = True,
       cm_options = empty_options\<lparr>type := Some ''int'', autoIncrement := Some True\<rparr>\<rparr>]"
    using ok storage_unchanged_on_error [OF refl refl, of sample_typeToString
      sample_determineType "Type_arg ''int''"
      "Some (empty_options\<lparr>autoIncrement := Some True\<rparr>)" PostCategory_prototype
      "''id''" empty_storage]
    by (simp add: co sample_id_type sample_typeToString_def empty_storage_def)
  from 1 2 show ?thesis by (intro conjI)
qed


text \<open>
  Claim C5. The claim says that declaring a primary column with \<^verbatim>\<open>nullable\<close> set to
  true throws before the metadata storage is mutated. It does whenever the options reach
  the checks, as shown above. \<^verbatim>\<open>@PrimaryColumn(undefined, {nullable: true})\<close> on the
  property \<^verbatim>\<open>id\<close> does not: the head replaces the options by the first argument, the
  decorator works with \<^verbatim>\<open>{}\<close>, infers the type, throws nothing and adds a column
  metadata whose options have lost the flag. With a string as first argument the same
  options are kept and the declaration throws.
\<close>

theorem nullable_after_undefined_is_registered:
  "PrimaryColumn sample_typeToString sample_determineType Undefined_arg
     (Some nullable_options) PostCategory_prototype ''id'' empty_storage =
     (Inr (),
      \<lparr>columnMetadatas =
         [\<lparr>cm_target = 7, propertyName = ''id'', propertyType = ''Number'',
           isPrimaryKey = True,
           cm_options = empty_options\<lparr>type := Some ''number''\<rparr>\<rparr>]\<rparr>)"
  by (simp add: PrimaryColumn_def resolve_arguments_def resolve_options_def truthy_def
                empty_options_def empty_storage_def addColumnMetadata_def sample_id_type
                sample_determineType_def sample_typeToString_def Let_def)

end
